theory Spec2Isabelle
  imports Complex_Main "HOL-Library.Sublist"
begin

section \<open>Python values, errors and the backend log\<close>

text \<open>
  The model follows \<^verbatim>\<open>simulation_loader.py\<close>. Every \<^verbatim>\<open>raise\<close> of the source is a
  constructor of \<open>error\<close>; an operation returns its outcome together with the
  object it was called on, because a Python exception leaves every mutation made before
  the \<^verbatim>\<open>raise\<close> in place. The dimensions of a rectangular coil are Python ints, on
  which the source computes exactly; float dimensions, whose sums round, are outside this
  model. The numbers of a transient setup are Python ints or floats by value, the
  infinities and NaN included. The backend (\<^verbatim>\<open>Maxwell3d\<close>) is a log of the calls made on it; its calls are assumed
  to succeed.
\<close>

datatype error =
    InvalidArguments "string list"
  | SolverTypeInvalid
  | VariableExists "string option"
  | NotInitialized
  | UnderscoreInName
  | CoilExists string
  | StepSizeNotGreater
  | SolverTypeMismatch string string
  | CoilNotFound string
  | VariableNotFound string
  | SpecimenExists string
  | SpecimenNotFound string
  | BoundarySizeInvalid
  | RegionNotAssigned
  | NoSetup
  | NoVariable
  | SetupExists string
  | StopTimeNotGreater
  | TimeStepNotPositive
  | NStepsNotPositive
  | StepsFromNotLess
  | StepsFromNegative
  | PyTypeError
  | IndexError
  | AttributeError
  | UnboundLocalError string

text \<open>The error taxonomy of the specification, by the condition that raises.\<close>

datatype kind =
  Configuration | DuplicateName | NotFound | PreconditionViolation | ModeMismatch | Runtime

fun kind_of :: "error \<Rightarrow> kind" where
  "kind_of (InvalidArguments _) = Configuration"
| "kind_of (VariableExists _) = DuplicateName"
| "kind_of (CoilExists _) = DuplicateName"
| "kind_of (SpecimenExists _) = DuplicateName"
| "kind_of (SetupExists _) = DuplicateName"
| "kind_of (CoilNotFound _) = NotFound"
| "kind_of (VariableNotFound _) = NotFound"
| "kind_of (SpecimenNotFound _) = NotFound"
| "kind_of (SolverTypeMismatch _ _) = ModeMismatch"
| "kind_of SolverTypeInvalid = Configuration"
| "kind_of NotInitialized = PreconditionViolation"
| "kind_of UnderscoreInName = PreconditionViolation"
| "kind_of StepSizeNotGreater = PreconditionViolation"
| "kind_of BoundarySizeInvalid = PreconditionViolation"
| "kind_of RegionNotAssigned = PreconditionViolation"
| "kind_of NoSetup = PreconditionViolation"
| "kind_of NoVariable = PreconditionViolation"
| "kind_of StopTimeNotGreater = PreconditionViolation"
| "kind_of TimeStepNotPositive = PreconditionViolation"
| "kind_of NStepsNotPositive = PreconditionViolation"
| "kind_of StepsFromNotLess = PreconditionViolation"
| "kind_of StepsFromNegative = PreconditionViolation"
| "kind_of PyTypeError = Runtime"
| "kind_of IndexError = Runtime"
| "kind_of AttributeError = Runtime"
| "kind_of (UnboundLocalError _) = Runtime"

text \<open>An argument whose run-time type the source inspects with \<^verbatim>\<open>type(v) == float\<close>
  and \<^verbatim>\<open>type(v) == str\<close>.\<close>

datatype pyval = PyInt int | PyFloat real | PyStr string

text \<open>A Python number in a comparison: an int, or a float, which is a finite value, an
  infinity or NaN. Python compares an int with a float by their exact values, orders the
  infinities below and above every finite value, and answers every comparison with NaN
  by \<^verbatim>\<open>False\<close>. \<open>num_le a b\<close> is \<^verbatim>\<open>a <= b\<close> (and \<^verbatim>\<open>b >= a\<close>), \<open>num_lt a b\<close> is
  \<^verbatim>\<open>a < b\<close> (and \<^verbatim>\<open>b > a\<close>).\<close>

datatype number = IntNum int | FloatNum real | PosInf | NegInf | NaN

fun num_le :: "number \<Rightarrow> number \<Rightarrow> bool" where
  "num_le NaN _ = False"
| "num_le _ NaN = False"
| "num_le NegInf _ = True"
| "num_le _ PosInf = True"
| "num_le PosInf _ = False"
| "num_le _ NegInf = False"
| "num_le (IntNum a) (IntNum b) = (a \<le> b)"
| "num_le (IntNum a) (FloatNum b) = (of_int a \<le> b)"
| "num_le (FloatNum a) (IntNum b) = (a \<le> of_int b)"
| "num_le (FloatNum a) (FloatNum b) = (a \<le> b)"

fun num_lt :: "number \<Rightarrow> number \<Rightarrow> bool" where
  "num_lt NaN _ = False"
| "num_lt _ NaN = False"
| "num_lt PosInf _ = False"
| "num_lt _ NegInf = False"
| "num_lt NegInf _ = True"
| "num_lt _ PosInf = True"
| "num_lt (IntNum a) (IntNum b) = (a < b)"
| "num_lt (IntNum a) (FloatNum b) = (of_int a < b)"
| "num_lt (FloatNum a) (IntNum b) = (a < of_int b)"
| "num_lt (FloatNum a) (FloatNum b) = (a < b)"

type_synonym dict = "(string \<times> string) list"

text \<open>Python's \<^verbatim>\<open>==\<close> between the objects the source compares: values of different
  types are never equal.\<close>

datatype pyobj = OStr string | OInt int | ODict dict | OStrList "string list" | ODictList "dict list"

fun py_eq :: "pyobj \<Rightarrow> pyobj \<Rightarrow> bool" where
  "py_eq (OStr a) (OStr b) = (a = b)"
| "py_eq (OInt a) (OInt b) = (a = b)"
| "py_eq (ODict a) (ODict b) = (set a = set b)"
| "py_eq (OStrList a) (OStrList b) = (a = b)"
| "py_eq (ODictList a) (ODictList b) = (map set a = map set b)"
| "py_eq _ _ = False"

text \<open>\<^verbatim>\<open>x in xs\<close> on a list: some element equals \<open>x\<close>.\<close>

definition py_in :: "pyobj \<Rightarrow> pyobj list \<Rightarrow> bool" where
  "py_in x xs = list_ex (py_eq x) xs"

text \<open>\<^verbatim>\<open>k in d\<close> on a dict: \<open>k\<close> is a key. \<^verbatim>\<open>None\<close> is never a key here.\<close>

definition in_dict :: "string \<Rightarrow> dict \<Rightarrow> bool" where
  "in_dict k d = (k \<in> set (map fst d))"

definition opt_in_dict :: "string option \<Rightarrow> dict \<Rightarrow> bool" where
  "opt_in_dict k d = (case k of None \<Rightarrow> False | Some n \<Rightarrow> in_dict n d)"

text \<open>\<^verbatim>\<open>a in b\<close> on strings: \<open>a\<close> is a contiguous part of \<open>b\<close>.\<close>

fun is_substring :: "string \<Rightarrow> string \<Rightarrow> bool" where
  "is_substring xs [] = (xs = [])"
| "is_substring xs (y # ys) = (prefix xs (y # ys) \<or> is_substring xs ys)"

text \<open>Decimal digits of a non-negative integer, as \<^verbatim>\<open>f"{n}"\<close> prints it.\<close>

fun string_of_nat :: "nat \<Rightarrow> string" where
  "string_of_nat n =
     (if n < 10 then [''0123456789'' ! n]
      else string_of_nat (n div 10) @ [''0123456789'' ! (n mod 10)])"

declare string_of_nat.simps [simp del]

type_synonym point = "int \<times> int \<times> int"

datatype call =
    Call string "string list"
  | CreatePolyline "point list" string

section \<open>SimulationInit\<close>

record session =
  solution_type :: string
  maxwell_3d :: "call list option"
  coil_names :: "string list"
  cylinder_names :: "string list"
  box_names :: "string list"
  coil_for_assign :: "string list list"
  crack_counter :: nat
  specimen_name :: "string list"
  boundary :: "string list"
  variable_names :: "dict list"

definition init :: "string \<Rightarrow> session" where
  "init solver_type =
     \<lparr>solution_type = solver_type, maxwell_3d = None, coil_names = [], cylinder_names = [],
      box_names = [], coil_for_assign = [], crack_counter = 0, specimen_name = [],
      boundary = [],
      variable_names = [[(''x'', ''0_mm'')], [(''y'', ''0_mm'')], [(''z'', ''0_mm'')]]\<rparr>"

definition simulation_init :: "session \<Rightarrow> (error + unit) \<times> session" where
  "simulation_init s =
     (if solution_type s \<notin> {''Transient'', ''EddyCurrent''} then (Inl SolverTypeInvalid, s)
      else (Inr (),
            s\<lparr>maxwell_3d := Some [Call ''Maxwell3d'' [solution_type s],
                                  Call ''modeler.model_units'' [''mm''],
                                  Call ''setitem'' [''$x'', ''0 mm''],
                                  Call ''setitem'' [''$y'', ''0 mm''],
                                  Call ''setitem'' [''$z'', ''0 mm'']]\<rparr>))"

text \<open>\<^verbatim>\<open>create_project_variable\<close>. \<open>str_value\<close> is \<^verbatim>\<open>str(variable_value)\<close>;
  \<open>variable_name\<close> and \<open>variable_unit\<close> are a string or \<^verbatim>\<open>None\<close>, so the two
  \<^verbatim>\<open>isinstance\<close> checks never raise.\<close>

definition create_project_variable ::
  "string option \<Rightarrow> string \<Rightarrow> string option \<Rightarrow> string list \<Rightarrow> session
     \<Rightarrow> (error + bool) \<times> session" where
  "create_project_variable variable_name str_value variable_unit kwargs s =
     (if kwargs \<noteq> [] then (Inl (InvalidArguments kwargs), s)
      else if list_all (opt_in_dict variable_name) (variable_names s)
        then (Inl (VariableExists variable_name), s)
      else case maxwell_3d s of
        None \<Rightarrow> (Inl NotInitialized, s)
      | Some m3d \<Rightarrow>
          let m1 = m3d @ [Call ''modeler.set_working_coordinate_system'' [''Global'']]
          in case (variable_name, variable_unit) of
               (Some n, Some u) \<Rightarrow>
                 (Inr True,
                  s\<lparr>maxwell_3d := Some (m1 @ [Call ''setitem'' [''$'' @ n, str_value @ u]]),
                    variable_names := variable_names s @ [[(n, str_value @ ''_'' @ u)]]\<rparr>)
             | _ \<Rightarrow> (Inl PyTypeError, s\<lparr>maxwell_3d := Some m1\<rparr>))"

section \<open>Coil path generators\<close>

text \<open>The body of the \<^verbatim>\<open>for\<close> loop of \<^verbatim>\<open>create_rectangle_coil\<close>, on the loop
  state \<open>(x, y, x_length, y_length)\<close>, for integer lengths: Python's \<^verbatim>\<open>+\<close> and
  \<^verbatim>\<open>-\<close> on ints are exact.\<close>

definition rectangle_turn ::
  "int \<Rightarrow> int list \<times> int list \<times> int \<times> int \<Rightarrow> int list \<times> int list \<times> int \<times> int" where
  "rectangle_turn step_size st =
     (case st of (x, y, x_length, y_length) \<Rightarrow>
        let x = x @ [last x + x_length]; y = y @ [last y];
            x_length = x_length + step_size;
            x = x @ [last x]; y = y @ [last y + y_length];
            y_length = y_length + step_size;
            x = x @ [last x - x_length]; y = y @ [last y];
            x_length = x_length + step_size;
            x = x @ [last x]; y = y @ [last y - y_length];
            y_length = y_length + step_size
        in (x, y, x_length, y_length))"

text \<open>The lists \<open>x\<close> and \<open>y\<close> after the loop and the two closing appends;
  \<^verbatim>\<open>range(num_turns)\<close> is empty for a negative count.\<close>

definition rectangle_coil_xy ::
  "int \<Rightarrow> int \<Rightarrow> int \<Rightarrow> int \<Rightarrow> int \<Rightarrow> int list \<times> int list" where
  "rectangle_coil_xy num_turns step_size wire_height initial_x_length initial_y_length =
     (case (rectangle_turn step_size ^^ nat num_turns)
             ([0], [0], initial_x_length, initial_y_length) of
        (x, y, _, _) \<Rightarrow> (x @ [hd x + wire_height], y @ [last y]))"

definition zip3 :: "int list \<Rightarrow> int list \<Rightarrow> int list \<Rightarrow> point list" where
  "zip3 x y z = zip x (zip y z)"

definition zeros_like :: "int list \<Rightarrow> int list" where
  "zeros_like x = map (\<lambda>_. 0) x"

definition rectangle_coil_path :: "int \<Rightarrow> int \<Rightarrow> int \<Rightarrow> int \<Rightarrow> int \<Rightarrow> point list" where
  "rectangle_coil_path num_turns step_size wire_height initial_x_length initial_y_length =
     (case rectangle_coil_xy num_turns step_size wire_height initial_x_length initial_y_length of
        (x, y) \<Rightarrow> zip3 x y (zeros_like x))"

text \<open>The return path: from the first point up by three wire heights, across to the
  last point, and down to one wire height below it. The lists are never empty here.\<close>

definition loop_path :: "int list \<Rightarrow> int list \<Rightarrow> int \<Rightarrow> point list" where
  "loop_path x y wire_height =
     [(hd x, hd y, 0), (hd x, hd y, 0 + wire_height * 3),
      (last x, last y, 0 + wire_height * 3), (last x, last y, 0 - wire_height)]"

section \<open>Coil creation\<close>

text \<open>What the modeler answers to the four \<^verbatim>\<open>get_objects_w_string\<close> queries at the end
  of a coil creation: objects containing the coil name, \<^verbatim>\<open>"Section"\<close>,
  \<^verbatim>\<open>"Separate"\<close>, and all objects.\<close>

record replies =
  objs_w_name :: "string list"
  objs_w_section :: "string list"
  objs_w_separate :: "string list"
  objs_all :: "string list"

text \<open>The tail every coil creation shares: separate the section sheets, delete the
  separated leftovers, and keep the objects naming both the coil and \<^verbatim>\<open>"Section"\<close>.\<close>

definition separate_sections :: "string \<Rightarrow> replies \<Rightarrow> call list \<times> string list" where
  "separate_sections name r =
     (let all_section_objects = (if objs_w_name r = [] then [] else objs_w_section r);
          all_section_objects =
            filter (\<lambda>item. is_substring name item \<and> is_substring ''Section'' item)
              all_section_objects;
          coil_for_assign =
            filter (\<lambda>obj. is_substring name obj \<and> is_substring ''Section'' obj) (objs_all r)
      in (map (\<lambda>obj. Call ''modeler.separate_bodies'' [obj]) all_section_objects @
          map (\<lambda>obj. Call ''modeler.delete'' [obj]) (objs_w_separate r),
          coil_for_assign))"

text \<open>The backend calls from sweeping the cross-section to cutting the section plane.
  Sizes, origins and the centre are passed through and not recorded.\<close>

definition sweep_and_section :: "string \<Rightarrow> string \<Rightarrow> string \<Rightarrow> point list \<Rightarrow> call list" where
  "sweep_and_section name material loop_shape loop =
     [Call ''modeler.create_rectangle'' [name],
      Call ''modeler.sweep_along_path'' [name, name @ ''_coil_path''],
      CreatePolyline loop (name @ ''_loop_path''),
      Call loop_shape [name @ ''_loop''],
      Call ''modeler.sweep_along_path'' [name @ ''_loop'', name @ ''_loop_path''],
      Call ''modeler.unite'' [name, name @ ''_loop''],
      Call ''assign_material'' [name, material],
      Call ''modeler.move'' [name],
      Call ''modeler.create_coordinate_system'' [name @ ''_for_section''],
      Call ''modeler.set_working_coordinate_system'' [name @ ''_for_section''],
      Call ''modeler.section'' [name, ''XY'']]"

definition create_rectangle_coil ::
  "string \<Rightarrow> string \<Rightarrow> int \<Rightarrow> int \<Rightarrow> int \<Rightarrow> int \<Rightarrow> int \<Rightarrow> int \<Rightarrow> string list \<Rightarrow> replies
     \<Rightarrow> session \<Rightarrow> (error + string list) \<times> session" where
  "create_rectangle_coil name material num_turns step_size wire_height wire_width
       initial_x_length initial_y_length kwargs r s =
     (if kwargs \<noteq> [] then (Inl (InvalidArguments kwargs), s)
      else if CHR ''_'' \<in> set name then (Inl UnderscoreInName, s)
      else case maxwell_3d s of
        None \<Rightarrow> (Inl NotInitialized, s)
      | Some m3d \<Rightarrow>
          if name \<in> set (coil_names s) then (Inl (CoilExists name), s)
          else if step_size \<le> wire_width then (Inl StepSizeNotGreater, s)
          else
            (case rectangle_coil_xy num_turns step_size wire_height
                    initial_x_length initial_y_length of
               (x, y) \<Rightarrow>
                 (case separate_sections name r of
                    (calls, sections) \<Rightarrow>
                      (Inr sections,
                       s\<lparr>coil_names := coil_names s @ [name],
                         maxwell_3d := Some (m3d @
                           [Call ''modeler.set_working_coordinate_system'' [''Global''],
                            CreatePolyline (zip3 x y (zeros_like x)) (name @ ''_coil_path'')] @
                           sweep_and_section name material ''modeler.create_rectangle''
                             (loop_path x y wire_height) @ calls),
                         coil_for_assign := coil_for_assign s @ [sections]\<rparr>))))"

section \<open>Excitation\<close>

text \<open>The list comprehension over \<^verbatim>\<open>_coil_for_assign\<close>: \<^verbatim>\<open>obj[0]\<close> raises on an empty
  entry; \<^verbatim>\<open>split('_', 1)[0]\<close> is the part before the first underscore.\<close>

fun target_objects :: "string list list \<Rightarrow> string \<Rightarrow> error + string list" where
  "target_objects [] coil_name = Inr []"
| "target_objects ([] # rest) coil_name = Inl IndexError"
| "target_objects ((obj0 # _) # rest) coil_name =
     (case target_objects rest coil_name of
        Inl e \<Rightarrow> Inl e
      | Inr found \<Rightarrow>
          Inr (if takeWhile (\<lambda>c. c \<noteq> CHR ''_'') obj0 = coil_name then obj0 # found else found))"

text \<open>\<^verbatim>\<open>any(v in var_dict for var_dict in self._variable_names)\<close>.\<close>

definition variable_declared :: "string \<Rightarrow> dict list \<Rightarrow> bool" where
  "variable_declared v ds = list_ex (in_dict v) ds"

definition transient_type_assign_excitation ::
  "string \<Rightarrow> string \<Rightarrow> string \<Rightarrow> string list \<Rightarrow> session \<Rightarrow> (error + bool) \<times> session" where
  "transient_type_assign_excitation coil_name excitation_type excitation_parameters kwargs s =
     (if kwargs \<noteq> [] then (Inl (InvalidArguments kwargs), s)
      else if \<not> solution_type s = ''Transient''
        then (Inl (SolverTypeMismatch ''Transient'' (solution_type s)), s)
      else case target_objects (coil_for_assign s) coil_name of
        Inl e \<Rightarrow> (Inl e, s)
      | Inr targets \<Rightarrow>
          if targets = [] then (Inl (CoilNotFound coil_name), s)
          else case maxwell_3d s of
            None \<Rightarrow> (Inl AttributeError, s)
          | Some m3d \<Rightarrow>
              (let m1 = m3d @ [Call ''assign_coil'' (targets @ [coil_name @ ''_for_coil''])];
                   m2 = (if excitation_type = ''Voltage''
                           then m1 @ [Call ''assign_winding''
                                        [''Voltage'', excitation_parameters @ ''V'',
                                         coil_name @ ''_for_winding'']]
                         else if excitation_type = ''Current''
                           then m1 @ [Call ''assign_winding''
                                        [''Current'', excitation_parameters @ ''A'',
                                         coil_name @ ''_for_winding'']]
                         else m1)
               in (Inr True,
                   s\<lparr>maxwell_3d := Some (m2 @ [Call ''add_winding_coils''
                        [coil_name @ ''_for_winding'', coil_name @ ''_for_coil'']])\<rparr>)))"

text \<open>The \<^verbatim>\<open>if/elif\<close> chains that bind \<^verbatim>\<open>amplitude_str\<close> and \<^verbatim>\<open>phase_str\<close>: no branch
  may match, and then the local stays unbound (\<open>None\<close>). \<open>fmt\<close> is Python's formatting of
  a float in an f-string.\<close>

definition amplitude_str :: "(real \<Rightarrow> string) \<Rightarrow> string \<Rightarrow> pyval \<Rightarrow> string option" where
  "amplitude_str fmt excitation_type amplitude =
     (case amplitude of
        PyFloat a \<Rightarrow>
          if excitation_type = ''Voltage'' then Some (fmt a @ '' V'')
          else if excitation_type = ''Current'' then Some (fmt a @ '' A'')
          else None
      | PyStr a \<Rightarrow>
          if excitation_type = ''Voltage'' then Some (''$'' @ a)
          else if excitation_type = ''Current'' then Some (''$'' @ a)
          else None
      | PyInt _ \<Rightarrow> None)"

definition phase_str :: "(real \<Rightarrow> string) \<Rightarrow> pyval \<Rightarrow> string option" where
  "phase_str fmt phase =
     (case phase of
        PyFloat p \<Rightarrow> Some (fmt p @ '' deg'')
      | PyStr p \<Rightarrow> Some (''$'' @ p)
      | PyInt _ \<Rightarrow> None)"

definition undeclared :: "pyval \<Rightarrow> dict list \<Rightarrow> string option" where
  "undeclared v ds =
     (case v of PyStr n \<Rightarrow> if \<not> variable_declared n ds then Some n else None | _ \<Rightarrow> None)"

text \<open>The winding call reads \<^verbatim>\<open>amplitude_str\<close>, then \<^verbatim>\<open>phase_str\<close>; reading an unbound
  local raises after \<^verbatim>\<open>assign_coil\<close> has been sent.\<close>

definition ec_type_assign_excitation ::
  "(real \<Rightarrow> string) \<Rightarrow> string \<Rightarrow> string \<Rightarrow> pyval \<Rightarrow> pyval \<Rightarrow> string list \<Rightarrow> session
     \<Rightarrow> (error + bool) \<times> session" where
  "ec_type_assign_excitation fmt coil_name excitation_type amplitude phase kwargs s =
     (if kwargs \<noteq> [] then (Inl (InvalidArguments kwargs), s)
      else if \<not> solution_type s = ''EddyCurrent''
        then (Inl (SolverTypeMismatch ''EddyCurrent'' (solution_type s)), s)
      else case target_objects (coil_for_assign s) coil_name of
        Inl e \<Rightarrow> (Inl e, s)
      | Inr targets \<Rightarrow>
          (case undeclared amplitude (variable_names s) of
             Some n \<Rightarrow> (Inl (VariableNotFound n), s)
           | None \<Rightarrow>
             (case undeclared phase (variable_names s) of
                Some n \<Rightarrow> (Inl (VariableNotFound n), s)
              | None \<Rightarrow>
                  if targets = [] then (Inl (CoilNotFound coil_name), s)
                  else case maxwell_3d s of
                    None \<Rightarrow> (Inl AttributeError, s)
                  | Some m3d \<Rightarrow>
                      (let m1 = m3d @ [Call ''assign_coil''
                                         (targets @ [coil_name @ ''_for_coil''])];
                           done = (\<lambda>m. (Inr True,
                                    s\<lparr>maxwell_3d := Some (m @ [Call ''add_winding_coils''
                                      [coil_name @ ''_for_winding'',
                                       coil_name @ ''_for_coil'']])\<rparr>))
                       in if excitation_type = ''Voltage'' \<or> excitation_type = ''Current''
                          then
                            (case amplitude_str fmt excitation_type amplitude of
                               None \<Rightarrow> (Inl (UnboundLocalError ''amplitude_str''),
                                         s\<lparr>maxwell_3d := Some m1\<rparr>)
                             | Some a \<Rightarrow>
                                 (case phase_str fmt phase of
                                    None \<Rightarrow> (Inl (UnboundLocalError ''phase_str''),
                                              s\<lparr>maxwell_3d := Some m1\<rparr>)
                                  | Some p \<Rightarrow>
                                      done (m1 @ [Call ''assign_winding''
                                        [excitation_type, a, p,
                                         coil_name @ ''_for_winding'']])))
                          else done m1))))"

section \<open>Specimen, cracks and region\<close>

definition create_specimen ::
  "string \<Rightarrow> string \<Rightarrow> string list \<Rightarrow> session \<Rightarrow> (error + bool) \<times> session" where
  "create_specimen name material kwargs s =
     (if kwargs \<noteq> [] then (Inl (InvalidArguments kwargs), s)
      else case maxwell_3d s of
        None \<Rightarrow> (Inl NotInitialized, s)
      | Some m3d \<Rightarrow>
          if name \<in> set (specimen_name s) then (Inl (SpecimenExists name), s)
          else (Inr True,
                s\<lparr>specimen_name := specimen_name s @ [name],
                  maxwell_3d := Some (m3d @
                    [Call ''modeler.set_working_coordinate_system'' [''Global''],
                     Call ''modeler.create_box'' [name],
                     Call ''assign_material'' [name, material]])\<rparr>))"

text \<open>Line 1093: the crack is numbered by the session's single counter.\<close>

definition crack_name :: "string \<Rightarrow> session \<Rightarrow> string" where
  "crack_name name s = name @ ''_crack_'' @ string_of_nat (crack_counter s + 1)"

definition specimen_with_crack ::
  "string \<Rightarrow> string list \<Rightarrow> session \<Rightarrow> (error + bool) \<times> session" where
  "specimen_with_crack name kwargs s =
     (if kwargs \<noteq> [] then (Inl (InvalidArguments kwargs), s)
      else case maxwell_3d s of
        None \<Rightarrow> (Inl NotInitialized, s)
      | Some m3d \<Rightarrow>
          if name \<notin> set (specimen_name s) then (Inl (SpecimenNotFound name), s)
          else (Inr True,
                s\<lparr>maxwell_3d := Some (m3d @
                    [Call ''modeler.create_box'' [crack_name name s],
                     Call ''modeler.subtract'' [name, crack_name name s]]),
                  crack_counter := crack_counter s + 1\<rparr>))"

text \<open>\<^verbatim>\<open>boundaries_size\<close> is a number, a list, or something else.\<close>

datatype boundaries = Scalar real | Sizes "real list" | Other

definition region_assign ::
  "boundaries \<Rightarrow> string list \<Rightarrow> session \<Rightarrow> (error + bool) \<times> session" where
  "region_assign boundaries_size kwargs s =
     (if kwargs \<noteq> [] then (Inl (InvalidArguments kwargs), s)
      else if (case boundaries_size of Scalar _ \<Rightarrow> False | Sizes l \<Rightarrow> length l \<noteq> 6
               | Other \<Rightarrow> True)
        then (Inl BoundarySizeInvalid, s)
      else case maxwell_3d s of
        None \<Rightarrow> (Inl AttributeError, s)
      | Some m3d \<Rightarrow>
          (let m1 = m3d @ [Call ''modeler.create_air_region'' []];
               m2 = (if solution_type s = ''EddyCurrent''
                       then m1 @ [Call ''assign_radiation'' [''Region'']] else m1)
           in (Inr True, s\<lparr>maxwell_3d := Some m2, boundary := boundary s @ [''Region'']\<rparr>)))"

section \<open>Analysis\<close>

text \<open>An \<^verbatim>\<open>Analysis\<close> object holds the session it drives and its own list of setup
  names. A call either returns \<^verbatim>\<open>True\<close> or, in build-only mode, ends the process with
  \<^verbatim>\<open>sys.exit(0)\<close>.\<close>

record analysis =
  sim_init :: session
  setup_names :: "string list"

datatype outcome = Returned bool | Exited int

definition new_analysis :: "session \<Rightarrow> analysis" where
  "new_analysis s = \<lparr>sim_init = s, setup_names = []\<rparr>"

definition with_log :: "analysis \<Rightarrow> call list \<Rightarrow> analysis" where
  "with_log a m = a\<lparr>sim_init := (sim_init a)\<lparr>maxwell_3d := Some m\<rparr>\<rparr>"

text \<open>The end of both analysis operations, from \<^verbatim>\<open>pre_save_file\<close> on: save, stop
  early, solve unless a sweep is awaited, save again.\<close>

definition save_and_solve ::
  "bool \<Rightarrow> bool \<Rightarrow> bool \<Rightarrow> bool \<Rightarrow> analysis \<Rightarrow> call list \<Rightarrow> (error + outcome) \<times> analysis" where
  "save_and_solve pre_save_file pre_stop save_simulation sole_solve a m =
     (let m1 = (if pre_save_file then m @ [Call ''save_project'' []] else m)
      in if pre_stop then (Inr (Exited 0), with_log a (m1 @ [Call ''release_desktop'' []]))
         else
           (let m2 = (if length (variable_names (sim_init a)) = 3
                        then m1 @ [Call ''analyze'' []]
                      else if sole_solve then m1 @ [Call ''analyze'' []]
                      else m1);
                m3 = (if save_simulation then m2 @ [Call ''save_project'' []] else m2)
            in (Inr (Returned True), with_log a m3)))"

text \<open>\<^verbatim>\<open>transient_analysis\<close>. The five numeric guards are Python comparisons;
  \<open>fmt\<close> is the formatting of a number in an f-string.\<close>

definition transient_analysis ::
  "(number \<Rightarrow> string) \<Rightarrow> string \<Rightarrow> number \<Rightarrow> number \<Rightarrow> number \<Rightarrow> number \<Rightarrow> number
     \<Rightarrow> bool \<Rightarrow> bool \<Rightarrow> bool \<Rightarrow> bool \<Rightarrow> string list \<Rightarrow> analysis
     \<Rightarrow> (error + outcome) \<times> analysis" where
  "transient_analysis fmt setup_name stop_time time_step n_steps steps_from steps_to
       pre_save_file pre_stop save_simulation sole_solve kwargs a =
     (if kwargs \<noteq> [] then (Inl (InvalidArguments kwargs), a)
      else if ''Region'' \<notin> set (boundary (sim_init a)) then (Inl RegionNotAssigned, a)
      else if solution_type (sim_init a) \<noteq> ''Transient''
        then (Inl (SolverTypeMismatch ''Transient'' (solution_type (sim_init a))), a)
      else if setup_name \<in> set (setup_names a) then (Inl (SetupExists setup_name), a)
      else
        (let a1 = a\<lparr>setup_names := setup_names a @ [setup_name]\<rparr>
         in if num_le stop_time time_step then (Inl StopTimeNotGreater, a1)
            else if num_le time_step (IntNum 0) then (Inl TimeStepNotPositive, a1)
            else if num_le n_steps (IntNum 0) then (Inl NStepsNotPositive, a1)
            else if num_le steps_to steps_from then (Inl StepsFromNotLess, a1)
            else if num_lt steps_from (IntNum 0) then (Inl StepsFromNegative, a1)
            else case maxwell_3d (sim_init a1) of
              None \<Rightarrow> (Inl AttributeError, a1)
            | Some m3d \<Rightarrow>
                save_and_solve pre_save_file pre_stop save_simulation sole_solve a1
                  (m3d @ [Call ''create_setup'' [setup_name],
                          Call ''setup.props'' [''StopTime'', fmt stop_time @ '' us''],
                          Call ''setup.props'' [''TimeStep'', fmt time_step @ '' us''],
                          Call ''setup.props'' [''SaveFieldsType'', ''Every N Steps''],
                          Call ''setup.props'' [''N Steps''],
                          Call ''setup.props'' [''Steps From'', fmt steps_from @ '' us''],
                          Call ''setup.props'' [''Steps To'', fmt steps_to @ '' us''],
                          Call ''setup.update'' []])))"

text \<open>\<^verbatim>\<open>Freq\<close> is bound for a float or a string frequency only.\<close>

definition freq_str :: "(real \<Rightarrow> string) \<Rightarrow> pyval \<Rightarrow> string option" where
  "freq_str fmt frequency =
     (case frequency of
        PyFloat f \<Rightarrow> Some (fmt f @ '' MHz'')
      | PyStr f \<Rightarrow> Some (''$'' @ f)
      | PyInt _ \<Rightarrow> None)"

definition ec_analysis ::
  "(real \<Rightarrow> string) \<Rightarrow> string \<Rightarrow> pyval \<Rightarrow> bool \<Rightarrow> bool \<Rightarrow> bool \<Rightarrow> bool \<Rightarrow> string list
     \<Rightarrow> analysis \<Rightarrow> (error + outcome) \<times> analysis" where
  "ec_analysis fmt setup_name frequency pre_save_file pre_stop save_simulation sole_solve
       kwargs a =
     (if kwargs \<noteq> [] then (Inl (InvalidArguments kwargs), a)
      else if ''Region'' \<notin> set (boundary (sim_init a)) then (Inl RegionNotAssigned, a)
      else if solution_type (sim_init a) \<noteq> ''EddyCurrent''
        then (Inl (SolverTypeMismatch ''EddyCurrent'' (solution_type (sim_init a))), a)
      else if setup_name \<in> set (setup_names a) then (Inl (SetupExists setup_name), a)
      else case undeclared frequency (variable_names (sim_init a)) of
        Some n \<Rightarrow> (Inl (VariableNotFound n), a)
      | None \<Rightarrow>
          (let a1 = a\<lparr>setup_names := setup_names a @ [setup_name]\<rparr>
           in case maxwell_3d (sim_init a1) of
                None \<Rightarrow> (Inl AttributeError, a1)
              | Some m3d \<Rightarrow>
                  (let m1 = m3d @ [Call ''create_setup'' [setup_name]]
                   in case freq_str fmt frequency of
                        None \<Rightarrow> (Inl (UnboundLocalError ''Freq''), with_log a1 m1)
                      | Some freq \<Rightarrow>
                          save_and_solve pre_save_file pre_stop save_simulation sole_solve a1
                            (m1 @ [Call ''setup.props'' [''Frequency'', freq],
                                   Call ''setup.props'' [''PercentRefinement'', ''15''],
                                   Call ''setup.props'' [''MaximumPasses'', ''500''],
                                   Call ''setup.props'' [''PercentError''],
                                   Call ''setup.update'' []]))))"

text \<open>\<^verbatim>\<open>optimetrics_setup\<close>. The two emptiness guards compare a list with the integer
  0; the variable guards look the name up in the list of dicts itself. \<open>file\<close> is
  \<^verbatim>\<open>None\<close> or the file name with the header columns after the first.\<close>

definition optimetrics_setup ::
  "(string \<times> string list) option \<Rightarrow> string \<Rightarrow> bool \<Rightarrow> bool \<Rightarrow> bool \<Rightarrow> string list \<Rightarrow> analysis
     \<Rightarrow> (error + outcome) \<times> analysis" where
  "optimetrics_setup file variable_name pre_save_file pre_stop save_simulation kwargs a =
     (let s = sim_init a; known = map ODict (variable_names s)
      in if kwargs \<noteq> [] then (Inl (InvalidArguments kwargs), a)
      else if ''Region'' \<notin> set (boundary s) then (Inl RegionNotAssigned, a)
      else if py_eq (OStrList (setup_names a)) (OInt 0) then (Inl NoSetup, a)
      else if py_eq (ODictList (variable_names s)) (OInt 0) then (Inl NoVariable, a)
      else if \<not> py_in (OStr variable_name) known
        then (Inl (VariableNotFound variable_name), a)
      else case maxwell_3d s of
        None \<Rightarrow> (Inl AttributeError, a)
      | Some m3d \<Rightarrow>
          (let m1 = m3d @ [Call ''modeler.set_working_coordinate_system'' [''Global'']];
               m2 = (if length (specimen_name s) \<noteq> 0
                       then m1 @ [Call ''modeler.move'' [hd (specimen_name s), ''$x'', ''$y'', ''$z'']]
                     else m1);
               finish = (\<lambda>m.
                 let m3 = (if pre_save_file then m @ [Call ''save_project'' []] else m)
                 in if pre_stop
                    then (Inr (Exited 0), with_log a (m3 @ [Call ''release_desktop'' []]))
                    else (Inr (Returned True),
                          with_log a (m3 @ [Call ''analyze'' []] @
                            (if save_simulation then [Call ''save_project'' []] else []))))
           in case file of
                None \<Rightarrow>
                  (case setup_names a of
                     [] \<Rightarrow> (Inl IndexError, with_log a m2)
                   | setup0 # _ \<Rightarrow>
                       finish (m2 @ [Call ''parametrics.add'' [''$'' @ variable_name, setup0, ''sweep''],
                                     Call ''opt.props'' [''SaveFields''],
                                     Call ''opt.update'' []]))
              | Some (file_name, header) \<Rightarrow>
                  (case filter (\<lambda>variation. \<not> py_in (OStr (tl variation)) known) header of
                     variation # _ \<Rightarrow> (Inl (VariableNotFound variation), with_log a m2)
                   | [] \<Rightarrow>
                       finish (m2 @ [Call ''parametrics.add_from_file'' [file_name, ''sweep''],
                                     Call ''opt.props'' [''SaveFields''],
                                     Call ''opt.update'' []]))))"

section \<open>Polyline geometry\<close>

text \<open>The segments of a polyline join consecutive points. The coil paths lie in the plane
  \<open>z = 0\<close>. A segment is measured by the sum of its coordinate differences, which is
  its length when it is parallel to an axis, and located by its bounding box, which
  contains every point of it and, for a segment parallel to an axis, nothing else.\<close>

type_synonym segment = "point \<times> point"

definition segments :: "point list \<Rightarrow> segment list" where
  "segments path = zip path (tl path)"

fun segment_length :: "segment \<Rightarrow> int" where
  "segment_length ((x1, y1, z1), (x2, y2, z2)) = \<bar>x2 - x1\<bar> + \<bar>y2 - y1\<bar> + \<bar>z2 - z1\<bar>"

fun segment_box :: "segment \<Rightarrow> int \<times> int \<times> int \<times> int" where
  "segment_box ((x1, y1, z1), (x2, y2, z2)) = (min x1 x2, max x1 x2, min y1 y2, max y1 y2)"

text \<open>Two boxes \<open>(x_low, x_high, y_low, y_high)\<close> meet when they share a point, and touch
  when they share exactly one.\<close>

fun boxes_meet :: "int \<times> int \<times> int \<times> int \<Rightarrow> int \<times> int \<times> int \<times> int \<Rightarrow> bool" where
  "boxes_meet (xl, xh, yl, yh) (xl', xh', yl', yh') =
     (xl \<le> xh' \<and> xl' \<le> xh \<and> yl \<le> yh' \<and> yl' \<le> yh)"


definition segments_meet :: "segment \<Rightarrow> segment \<Rightarrow> bool" where
  "segments_meet s t = boxes_meet (segment_box s) (segment_box t)"


text \<open>The corners of the square spiral in closed form: the origin, and four more corners
  for each turn, turn \<open>k\<close> (counted from 0) reaching out to \<open>l + k * s\<close> and
  \<open>m + k * s\<close> on the positive side and to \<open>(k + 1) * s\<close> on the negative side.\<close>

fun spiral_corners :: "int \<Rightarrow> int \<Rightarrow> int \<Rightarrow> nat \<Rightarrow> (int \<times> int) list" where
  "spiral_corners l m s 0 = [(0, 0)]"
| "spiral_corners l m s (Suc k) =
     spiral_corners l m s k @
       [(l + int k * s, - (int k * s)), (l + int k * s, m + int k * s),
        (- (int k * s) - s, m + int k * s), (- (int k * s) - s, - (int k * s) - s)]"


section \<open>Example sessions\<close>

text \<open>The docstring example of \<^verbatim>\<open>transient_analysis\<close> and \<^verbatim>\<open>ec_analysis\<close>: a session
  of the given solver type, initialised, with a region assigned.\<close>

definition example_session :: "string \<Rightarrow> session" where
  "example_session solver_type =
     snd (region_assign (Scalar 100) [] (snd (simulation_init (init solver_type))))"

text \<open>The docstring example of \<^verbatim>\<open>optimetrics_setup\<close> up to the sweep: a declared
  variable \<^verbatim>\<open>MyVariable\<close>, a region, and the setup \<^verbatim>\<open>MySetup\<close>.\<close>

definition sweep_example :: analysis where
  "sweep_example =
     (let s0 = snd (simulation_init (init ''EddyCurrent''));
          s1 = snd (create_project_variable (Some ''MyVariable'') ''0.1'' (Some ''mm'') [] s0);
          s2 = snd (region_assign (Scalar 100) [] s1)
      in snd (ec_analysis (\<lambda>_. ''1.0'') ''MySetup'' (PyFloat 1) True False True True []
                (new_analysis s2)))"

text \<open>A modeler that answers a section cut of coil \<open>name\<close> with one sheet
  \<^verbatim>\<open><name>_Section1\<close>, and an eddy-current session holding one rectangular coil of
  one turn, with step size 2 and all other dimensions 1.\<close>

definition section_replies :: "string \<Rightarrow> replies" where
  "section_replies name =
     \<lparr>objs_w_name = [name, name @ ''_Section1''], objs_w_section = [name @ ''_Section1''],
      objs_w_separate = [], objs_all = [name, name @ ''_Section1'']\<rparr>"

definition coil_example :: session where
  "coil_example =
     snd (create_rectangle_coil ''RecCoil'' ''Copper'' 1 2 1 1 1 1 []
            (section_replies ''RecCoil'') (snd (simulation_init (init ''EddyCurrent''))))"




definition two_specimens :: session where
  "two_specimens =
     snd (create_specimen ''B'' ''Aluminum'' []
       (snd (create_specimen ''A'' ''Aluminum'' [] (snd (simulation_init (init ''Transient''))))))"



section \<open>Properties\<close>

lemmas session_ops = example_session_def region_assign_def simulation_init_def init_def
  new_analysis_def create_project_variable_def ec_analysis_def save_and_solve_def with_log_def
  undeclared_def freq_str_def opt_in_dict_def in_dict_def variable_declared_def

subsection \<open>Variables\<close>

text \<open>A string is never equal to a dict, so it is never found in a list of dicts.\<close>

lemma py_in_str_dicts: "\<not> py_in (OStr v) (map ODict ds)"
  by (induction ds) (simp_all add: py_in_def)

lemma optimetrics_setup_never_finds:
  assumes "''Region'' \<in> set (boundary (sim_init a))"
  shows "optimetrics_setup file v pre_save_file pre_stop save_simulation [] a
           = (Inl (VariableNotFound v), a)"
  using assms by (simp add: optimetrics_setup_def py_in_str_dicts)

text \<open>
  C1. With a setup created and the variable \<^verbatim>\<open>MyVariable\<close> declared, the sweep should be
  created. On the docstring example the variable is declared, the setup exists and the
  region is assigned, and \<^verbatim>\<open>optimetrics_setup\<close> still raises the not-found error for
  that variable.
\<close>

theorem optimetrics_setup_rejects_declared_variable:
  "variable_declared ''MyVariable'' (variable_names (sim_init sweep_example))
   \<and> setup_names sweep_example = [''MySetup'']
   \<and> ''Region'' \<in> set (boundary (sim_init sweep_example))
   \<and> fst (optimetrics_setup None ''MyVariable'' True False True [] sweep_example)
       = Inl (VariableNotFound ''MyVariable'')"
  by (simp add: sweep_example_def session_ops Let_def optimetrics_setup_def py_in_def)

text \<open>The duplicate guard asks that the name be a key of every dict of the list; with the
  three one-key placeholders in front no name is.\<close>

lemma create_project_variable_no_duplicate_error:
  assumes "variable_names s = [(''x'', a)] # [(''y'', b)] # rest"
  shows "fst (create_project_variable n v u [] s) \<noteq> Inl (VariableExists n)"
  using assms
  by (auto simp add: create_project_variable_def opt_in_dict_def in_dict_def Let_def
      split: option.splits)

text \<open>
  C2. Declaring a name that is already in the variable mapping should fail. In a fresh
  initialised session \<^verbatim>\<open>x_move\<close> is declared twice and the built-in \<^verbatim>\<open>x\<close> once more;
  all three calls return \<^verbatim>\<open>True\<close> and the mapping ends with two entries named
  \<^verbatim>\<open>x_move\<close> and two named \<^verbatim>\<open>x\<close>.
\<close>

theorem create_project_variable_accepts_duplicate:
  "(let s0 = snd (simulation_init (init ''Transient''));
        r1 = create_project_variable (Some ''x_move'') ''1.0'' (Some ''mm'') [] s0;
        r2 = create_project_variable (Some ''x_move'') ''2.0'' (Some ''mm'') [] (snd r1);
        r3 = create_project_variable (Some ''x'') ''3.0'' (Some ''mm'') [] (snd r2)
    in fst r1 = Inr True \<and> fst r2 = Inr True \<and> fst r3 = Inr True
     \<and> variable_names (snd r3) =
         [[(''x'', ''0_mm'')], [(''y'', ''0_mm'')], [(''z'', ''0_mm'')],
          [(''x_move'', ''1.0_mm'')], [(''x_move'', ''2.0_mm'')], [(''x'', ''3.0_mm'')]])"
  by (simp add: session_ops Let_def)

subsection \<open>Transient setups\<close>

text \<open>
  C3. A rejected call should leave the setup-name registry as it was. On the example
  session, \<^verbatim>\<open>transient_analysis\<close> with \<^verbatim>\<open>stop_time = 1\<close> and \<^verbatim>\<open>time_step = 1\<close> raises,
  and the registry has gone from empty to holding \<^verbatim>\<open>MySetup\<close>; the corrected call
  under the same name is then refused as a duplicate.
\<close>

theorem transient_analysis_registers_rejected_setup:
  "(let a = new_analysis (example_session ''Transient'');
        r = transient_analysis (\<lambda>_. ''1'') ''MySetup'' (IntNum 1) (IntNum 1) (IntNum 1)
              (IntNum 0) (IntNum 1) True False False True [] a
    in fst r = Inl StopTimeNotGreater \<and> setup_names a = []
     \<and> setup_names (snd r) = [''MySetup'']
     \<and> fst (transient_analysis (\<lambda>_. ''1'') ''MySetup'' (IntNum 1) (FloatNum 0.5) (IntNum 1)
              (IntNum 0) (IntNum 1) True False False True [] (snd r))
         = Inl (SetupExists ''MySetup''))"
  by (simp add: session_ops Let_def transient_analysis_def)






text \<open>Before a region exists both setup operations raise the region precondition error and
  change nothing; once a region exists, in the matching solver mode, with a fresh name
  and, for the transient setup, numbers that pass the guards, or, for the eddy-current
  setup, a float frequency or the name of a declared variable, the setup is registered
  and created.\<close>

lemma analysis_setup_before_region:
  assumes "''Region'' \<notin> set (boundary (sim_init a))"
  shows "transient_analysis fmt setup_name stop_time time_step n_steps steps_from steps_to
           pre_save_file pre_stop save_simulation sole_solve [] a = (Inl RegionNotAssigned, a)"
    and "ec_analysis fmt' setup_name frequency pre_save_file pre_stop save_simulation sole_solve
           [] a = (Inl RegionNotAssigned, a)"
    and "kind_of RegionNotAssigned = PreconditionViolation"
  using assms by (simp_all add: transient_analysis_def ec_analysis_def)

lemma region_assign_ok:
  assumes "region_assign b [] s = (Inr True, s')"
  shows "''Region'' \<in> set (boundary s') \<and> maxwell_3d s' \<noteq> None
       \<and> solution_type s' = solution_type s \<and> variable_names s' = variable_names s"
  using assms
  by (auto simp add: region_assign_def Let_def split: if_splits option.splits)

lemma transient_analysis_after_region:
  assumes "''Region'' \<in> set (boundary (sim_init a))" and "maxwell_3d (sim_init a) = Some m"
    and "solution_type (sim_init a) = ''Transient''" and "setup_name \<notin> set (setup_names a)"
    and "\<not> num_le stop_time time_step" and "\<not> num_le time_step (IntNum 0)"
    and "\<not> num_le n_steps (IntNum 0)" and "\<not> num_le steps_to steps_from"
    and "\<not> num_lt steps_from (IntNum 0)"
  shows "case transient_analysis fmt setup_name stop_time time_step n_steps steps_from
                steps_to pre_save_file pre_stop save_simulation sole_solve [] a of
           (r, a') \<Rightarrow> r = Inr (if pre_stop then Exited 0 else Returned True)
              \<and> setup_names a' = setup_names a @ [setup_name]
              \<and> Call ''create_setup'' [setup_name] \<in> set (the (maxwell_3d (sim_init a')))"
  using assms
  by (simp add: transient_analysis_def save_and_solve_def with_log_def Let_def)

lemma ec_analysis_after_region:
  assumes "''Region'' \<in> set (boundary (sim_init a))" and "maxwell_3d (sim_init a) = Some m"
    and "solution_type (sim_init a) = ''EddyCurrent''" and "setup_name \<notin> set (setup_names a)"
    and "case frequency of PyFloat _ \<Rightarrow> True
         | PyStr v \<Rightarrow> variable_declared v (variable_names (sim_init a)) | PyInt _ \<Rightarrow> False"
  shows "case ec_analysis fmt setup_name frequency pre_save_file pre_stop save_simulation
                sole_solve [] a of
           (r, a') \<Rightarrow> r = Inr (if pre_stop then Exited 0 else Returned True)
              \<and> setup_names a' = setup_names a @ [setup_name]
              \<and> Call ''create_setup'' [setup_name] \<in> set (the (maxwell_3d (sim_init a')))"
  using assms
  by (cases frequency)
     (simp_all add: ec_analysis_def save_and_solve_def with_log_def Let_def undeclared_def
        freq_str_def)

text \<open>
  C8. After a region has been assigned, creating a setup with otherwise valid parameters
  should succeed. On the example eddy-current session, which has its region,
  \<^verbatim>\<open>ec_analysis\<close> with the integer frequency 1 of its own docstring example registers
  the name, creates the setup in the backend and then raises on the unbound local
  \<^verbatim>\<open>Freq\<close>; with the float frequency 1.0 the same call succeeds.
\<close>

theorem ec_analysis_integer_frequency_unbound:
  "(let a = new_analysis (example_session ''EddyCurrent'');
        r = ec_analysis (\<lambda>_. ''1.0'') ''MySetup'' (PyInt 1) True True False True [] a
    in ''Region'' \<in> set (boundary (sim_init a))
     \<and> solution_type (sim_init a) = ''EddyCurrent''
     \<and> setup_names a = []
     \<and> fst r = Inl (UnboundLocalError ''Freq'')
     \<and> setup_names (snd r) = [''MySetup'']
     \<and> Call ''create_setup'' [''MySetup''] \<in> set (the (maxwell_3d (sim_init (snd r))))
     \<and> fst (ec_analysis (\<lambda>_. ''1.0'') ''MySetup'' (PyFloat 1) True True False True [] a)
         = Inr (Exited 0))"
  by (simp add: session_ops Let_def)

subsection \<open>Excitation\<close>

lemma separate_sections_example:
  "separate_sections ''RecCoil'' (section_replies ''RecCoil'') =
     ([Call ''modeler.separate_bodies'' [''RecCoil_Section1'']], [''RecCoil_Section1''])"
  by (simp add: separate_sections_def section_replies_def)

lemma create_rectangle_coil_sections:
  assumes "CHR ''_'' \<notin> set name" and "maxwell_3d s \<noteq> None" and "name \<notin> set (coil_names s)"
    and "wire_width < step_size"
  shows "fst (create_rectangle_coil name material num_turns step_size wire_height wire_width
            initial_x_length initial_y_length [] r s) = Inr (snd (separate_sections name r))
      \<and> coil_for_assign (snd (create_rectangle_coil name material num_turns step_size wire_height
            wire_width initial_x_length initial_y_length [] r s))
          = coil_for_assign s @ [snd (separate_sections name r)]
      \<and> solution_type (snd (create_rectangle_coil name material num_turns step_size wire_height
            wire_width initial_x_length initial_y_length [] r s)) = solution_type s
      \<and> variable_names (snd (create_rectangle_coil name material num_turns step_size wire_height
            wire_width initial_x_length initial_y_length [] r s)) = variable_names s
      \<and> maxwell_3d (snd (create_rectangle_coil name material num_turns step_size wire_height
            wire_width initial_x_length initial_y_length [] r s)) \<noteq> None"
  using assms
  by (auto simp add: create_rectangle_coil_def split: prod.splits)

lemma coil_example_state:
  "coil_for_assign coil_example = [[''RecCoil_Section1'']]
   \<and> solution_type coil_example = ''EddyCurrent'' \<and> maxwell_3d coil_example \<noteq> None
   \<and> variable_names coil_example = variable_names (init ''EddyCurrent'')"
  unfolding coil_example_def
  using create_rectangle_coil_sections [of "''RecCoil''" "snd (simulation_init (init ''EddyCurrent''))"
      1 2 "''Copper''" 1 1 1 1 "section_replies ''RecCoil''"]
  by (simp add: separate_sections_example simulation_init_def init_def)

text \<open>An integer amplitude or phase matches no branch of the \<^verbatim>\<open>if/elif\<close> chains.\<close>

lemma ec_type_assign_excitation_unbound:
  assumes "solution_type s = ''EddyCurrent''"
    and "target_objects (coil_for_assign s) coil_name = Inr (t # ts)"
    and "maxwell_3d s \<noteq> None"
    and "excitation_type = ''Voltage'' \<or> excitation_type = ''Current''"
    and "undeclared phase (variable_names s) = None"
  shows "fst (ec_type_assign_excitation fmt coil_name excitation_type (PyInt n) phase [] s)
           = Inl (UnboundLocalError ''amplitude_str'')"
    and "undeclared amplitude (variable_names s) = None \<Longrightarrow>
         amplitude_str fmt excitation_type amplitude \<noteq> None \<Longrightarrow>
         fst (ec_type_assign_excitation fmt coil_name excitation_type amplitude (PyInt k) [] s)
           = Inl (UnboundLocalError ''phase_str'')"
  using assms
  by (auto simp add: ec_type_assign_excitation_def undeclared_def amplitude_str_def phase_str_def
      Let_def split: option.splits)

text \<open>What the claim says for a float or a string does hold: the literal is the formatted
  value and the unit, the reference is the name after a dollar sign, and an undeclared
  name raises the not-found error.\<close>

lemma ec_type_assign_excitation_strings:
  assumes "solution_type s = ''EddyCurrent''"
    and "target_objects (coil_for_assign s) coil_name = Inr (t # ts)"
    and "maxwell_3d s = Some m"
  shows "amplitude_str fmt ''Voltage'' (PyFloat v) = Some (fmt v @ '' V'')"
    and "amplitude_str fmt ''Current'' (PyFloat v) = Some (fmt v @ '' A'')"
    and "phase_str fmt (PyFloat v) = Some (fmt v @ '' deg'')"
    and "amplitude_str fmt ''Voltage'' (PyStr n) = Some (''$'' @ n)"
    and "phase_str fmt (PyStr n) = Some (''$'' @ n)"
    and "\<not> variable_declared n (variable_names s) \<Longrightarrow>
           ec_type_assign_excitation fmt coil_name excitation_type (PyStr n) phase [] s
             = (Inl (VariableNotFound n), s)"
    and "excitation_type = ''Voltage'' \<or> excitation_type = ''Current'' \<Longrightarrow>
         undeclared amplitude (variable_names s) = None \<Longrightarrow>
         undeclared phase (variable_names s) = None \<Longrightarrow>
         amplitude_str fmt excitation_type amplitude = Some a \<Longrightarrow> phase_str fmt phase = Some p \<Longrightarrow>
         ec_type_assign_excitation fmt coil_name excitation_type amplitude phase [] s =
           (Inr True, s\<lparr>maxwell_3d := Some (m @
              [Call ''assign_coil'' ((t # ts) @ [coil_name @ ''_for_coil'']),
               Call ''assign_winding'' [excitation_type, a, p, coil_name @ ''_for_winding''],
               Call ''add_winding_coils''
                 [coil_name @ ''_for_winding'', coil_name @ ''_for_coil'']])\<rparr>)"
  using assms
  by (auto simp add: ec_type_assign_excitation_def undeclared_def amplitude_str_def phase_str_def
      Let_def)

text \<open>
  C6. A numeric amplitude should yield the literal \<^verbatim>\<open>"<value> V"\<close> or \<^verbatim>\<open>"<value> A"\<close>
  and a numeric phase \<^verbatim>\<open>"<value> deg"\<close>. In EddyCurrent mode with the coil \<^verbatim>\<open>RecCoil\<close>
  registered, the integer amplitude 10 (the declared default, and the docstring example)
  derives no string: the call raises on the unbound local, for Voltage and for Current;
  so does the integer phase 0.
\<close>

theorem ec_type_assign_excitation_integer_unbound:
  "coil_for_assign coil_example = [[''RecCoil_Section1'']]
   \<and> solution_type coil_example = ''EddyCurrent''
   \<and> fst (ec_type_assign_excitation (\<lambda>_. ''10.0'') ''RecCoil'' ''Voltage'' (PyInt 10) (PyInt 0) []
        coil_example) = Inl (UnboundLocalError ''amplitude_str'')
   \<and> fst (ec_type_assign_excitation (\<lambda>_. ''10.0'') ''RecCoil'' ''Current'' (PyInt 10) (PyFloat 0) []
        coil_example) = Inl (UnboundLocalError ''amplitude_str'')
   \<and> fst (ec_type_assign_excitation (\<lambda>_. ''10.0'') ''RecCoil'' ''Voltage'' (PyFloat 10) (PyInt 0) []
        coil_example) = Inl (UnboundLocalError ''phase_str'')"
  using coil_example_state
    ec_type_assign_excitation_unbound(1)
      [of coil_example "''RecCoil''" "''RecCoil_Section1''" "[]" "''Voltage''" "PyInt 0"]
    ec_type_assign_excitation_unbound(1)
      [of coil_example "''RecCoil''" "''RecCoil_Section1''" "[]" "''Current''" "PyFloat 0"]
    ec_type_assign_excitation_unbound(2)
      [of coil_example "''RecCoil''" "''RecCoil_Section1''" "[]" "''Voltage''" "PyInt 0"
          "PyFloat 10" "\<lambda>_. ''10.0''"]
  by (simp add: undeclared_def amplitude_str_def)

text \<open>
  C9. For every coil name and every combination of the declared arguments,
  \<^verbatim>\<open>ec_type_assign_excitation\<close> in Transient mode and
  \<^verbatim>\<open>transient_type_assign_excitation\<close> in EddyCurrent mode raise the mode-mismatch
  error and return the session, backend log included, unchanged: no backend call is
  made.
\<close>

theorem excitation_mode_mismatch:
  "(solution_type s = ''Transient'' \<longrightarrow>
      (\<exists>e. ec_type_assign_excitation fmt coil_name excitation_type amplitude phase [] s
              = (Inl e, s) \<and> kind_of e = ModeMismatch))
   \<and> (solution_type s = ''EddyCurrent'' \<longrightarrow>
      (\<exists>e. transient_type_assign_excitation coil_name excitation_type excitation_parameters [] s
              = (Inl e, s) \<and> kind_of e = ModeMismatch))"
  by (simp add: ec_type_assign_excitation_def transient_type_assign_excitation_def)

theorem excitation_mode_mismatch_witness:
  "(solution_type (init ''Transient'') = ''Transient'' \<and>
      (\<exists>e. ec_type_assign_excitation (\<lambda>_. ''10.0'') ''RecCoil'' ''Voltage'' (PyFloat 10)
              (PyFloat 0) [] (init ''Transient'')
              = (Inl e, init ''Transient'') \<and> kind_of e = ModeMismatch))
   \<and> (solution_type (init ''EddyCurrent'') = ''EddyCurrent'' \<and>
      (\<exists>e. transient_type_assign_excitation ''RecCoil'' ''Voltage'' ''10*sin(2*pi*1e6*Time+0)'' []
              (init ''EddyCurrent'')
              = (Inl e, init ''EddyCurrent'') \<and> kind_of e = ModeMismatch))"
  using excitation_mode_mismatch
      [of "init ''Transient''" "\<lambda>_. ''10.0''" "''RecCoil''" "''Voltage''" "PyFloat 10" "PyFloat 0"]
    excitation_mode_mismatch
      [of "init ''EddyCurrent''" _ "''RecCoil''" "''Voltage''" _ _ "''10*sin(2*pi*1e6*Time+0)''"]
  by (simp add: init_def)

text \<open>A call with an undeclared keyword argument is refused before the mode is looked
  at, as every operation does.\<close>

lemma excitation_unknown_keyword:
  assumes "kwargs \<noteq> []"
  shows "ec_type_assign_excitation fmt coil_name excitation_type amplitude phase kwargs s
           = (Inl (InvalidArguments kwargs), s)"
    and "transient_type_assign_excitation coil_name excitation_type excitation_parameters
           kwargs s = (Inl (InvalidArguments kwargs), s)"
  using assms
  by (simp_all add: ec_type_assign_excitation_def transient_type_assign_excitation_def)

subsection \<open>Cracks\<close>





lemma specimen_with_crack_uninitialised:
  assumes "maxwell_3d s = None"
  shows "specimen_with_crack name [] s = (Inl NotInitialized, s)"
  using assms by (simp add: specimen_with_crack_def)



lemma two_specimens_log:
  "maxwell_3d two_specimens =
     Some [Call ''Maxwell3d'' [''Transient''], Call ''modeler.model_units'' [''mm''],
           Call ''setitem'' [''$x'', ''0 mm''], Call ''setitem'' [''$y'', ''0 mm''],
           Call ''setitem'' [''$z'', ''0 mm''],
           Call ''modeler.set_working_coordinate_system'' [''Global''],
           Call ''modeler.create_box'' [''A''], Call ''assign_material'' [''A'', ''Aluminum''],
           Call ''modeler.set_working_coordinate_system'' [''Global''],
           Call ''modeler.create_box'' [''B''], Call ''assign_material'' [''B'', ''Aluminum'']]"
  by (simp add: two_specimens_def create_specimen_def simulation_init_def init_def)



subsection \<open>The square spiral\<close>

text \<open>Every point of a segment lies in its bounding box, so segments whose boxes do not
  meet have no point in common.\<close>

lemma convex_between:
  fixes a b t :: real
  assumes "0 \<le> t" and "t \<le> 1"
  shows "min a b \<le> (1 - t) * a + t * b" and "(1 - t) * a + t * b \<le> max a b"
proof -
  have e1: "(1 - t) * a + t * b = a + t * (b - a)" by (simp add: algebra_simps)
  have e2: "(1 - t) * a + t * b = b + (1 - t) * (a - b)" by (simp add: algebra_simps)
  show "min a b \<le> (1 - t) * a + t * b"
  proof (cases "a \<le> b")
    case True
    then have "0 \<le> t * (b - a)" using assms(1) by simp
    with True show ?thesis by (simp add: e1)
  next
    case False
    then have "0 \<le> (1 - t) * (a - b)" using assms(2) by simp
    with False show ?thesis by (simp add: e2)
  qed
  show "(1 - t) * a + t * b \<le> max a b"
  proof (cases "a \<le> b")
    case True
    then have "(1 - t) * (a - b) \<le> 0" using assms(2) by (simp add: mult_nonneg_nonpos)
    with True show ?thesis by (simp add: e2)
  next
    case False
    then have "t * (b - a) \<le> 0" using assms(1) by (simp add: mult_nonneg_nonpos)
    with False show ?thesis by (simp add: e1)
  qed
qed

lemma segment_point_in_box:
  assumes "0 \<le> t" and "t \<le> 1"
    and "segment_box ((x1, y1, z1), (x2, y2, z2)) = (xl, xh, yl, yh)"
  shows "real_of_int xl \<le> (1 - t) * of_int x1 + t * of_int x2
       \<and> (1 - t) * of_int x1 + t * of_int x2 \<le> real_of_int xh
       \<and> real_of_int yl \<le> (1 - t) * of_int y1 + t * of_int y2
       \<and> (1 - t) * of_int y1 + t * of_int y2 \<le> real_of_int yh"
proof -
  have "xl = min x1 x2" "xh = max x1 x2" "yl = min y1 y2" "yh = max y1 y2"
    using assms(3) by simp_all
  then show ?thesis
    using convex_between [OF assms(1,2), of "of_int x1" "of_int x2"]
      convex_between [OF assms(1,2), of "of_int y1" "of_int y2"]
    by (auto simp add: min_def max_def split: if_splits)
qed

text \<open>The loop of \<^verbatim>\<open>create_rectangle_coil\<close> computes the corners of the closed form.\<close>

lemma spiral_corners_length: "length (spiral_corners l m s k) = 4 * k + 1"
  by (induction k) simp_all

lemma spiral_corners_last:
  "last (spiral_corners l m s k) = (- (int k * s), - (int k * s))"
  by (cases k) (simp_all add: algebra_simps)

lemma spiral_corners_ne: "spiral_corners l m s k \<noteq> []"
  using spiral_corners_length [of l m s k] by auto

lemma spiral_corners_hd: "hd (spiral_corners l m s k) = (0, 0)"
  by (induction k) (simp_all add: hd_append spiral_corners_ne)

lemma rectangle_turn_step:
  "rectangle_turn s (xs @ [- a], ys @ [- a], l + 2 * a, m + 2 * a) =
     (xs @ [- a, l + a, l + a, - a - s, - a - s], ys @ [- a, - a, m + a, m + a, - a - s],
      l + 2 * a + 2 * s, m + 2 * a + 2 * s)"
  by (simp add: rectangle_turn_def Let_def)

lemma rectangle_turns_closed_form:
  "(rectangle_turn s ^^ k) ([0], [0], l, m) =
     (map fst (spiral_corners l m s k), map snd (spiral_corners l m s k),
      l + 2 * (int k * s), m + 2 * (int k * s))"
proof (induction k)
  case 0
  then show ?case by simp
next
  case (Suc k)
  let ?a = "int k * s"
  let ?c = "spiral_corners l m s k"
  have c: "?c = butlast ?c @ [(- ?a, - ?a)]"
    using spiral_corners_last [of l m s k] spiral_corners_ne [of l m s k]
    by (metis append_butlast_last_id)
  have x: "map fst ?c = map fst (butlast ?c) @ [- ?a]"
    and y: "map snd ?c = map snd (butlast ?c) @ [- ?a]"
    by (subst c, simp)+
  have r: "int (Suc k) * s = ?a + s" by (simp add: algebra_simps)
  have "(rectangle_turn s ^^ Suc k) ([0], [0], l, m) =
          rectangle_turn s (map fst (butlast ?c) @ [- ?a], map snd (butlast ?c) @ [- ?a],
            l + 2 * ?a, m + 2 * ?a)"
    by (simp only: funpow.simps o_apply Suc.IH) (simp only: x [symmetric] y [symmetric])
  also have "\<dots> = (map fst (butlast ?c) @ [- ?a, l + ?a, l + ?a, - ?a - s, - ?a - s],
                    map snd (butlast ?c) @ [- ?a, - ?a, m + ?a, m + ?a, - ?a - s],
                    l + 2 * ?a + 2 * s, m + 2 * ?a + 2 * s)"
    by (rule rectangle_turn_step)
  also have "\<dots> = (map fst ?c @ [l + ?a, l + ?a, - ?a - s, - ?a - s],
                    map snd ?c @ [- ?a, m + ?a, m + ?a, - ?a - s],
                    l + 2 * ?a + 2 * s, m + 2 * ?a + 2 * s)"
    by (simp add: x y)
  also have "\<dots> = (map fst (spiral_corners l m s (Suc k)),
                    map snd (spiral_corners l m s (Suc k)),
                    l + 2 * (int (Suc k) * s), m + 2 * (int (Suc k) * s))"
    by (simp add: algebra_simps)
  finally show ?case .
qed



lemma zip3_corners:
  "zip3 (map fst c) (map snd c) (zeros_like (map fst c)) = map (\<lambda>(x, y). (x, y, 0)) c"
  by (induction c) (simp_all add: zip3_def zeros_like_def split_def)

lemma zip3_snoc:
  assumes "length xs = length ys"
  shows "zip3 (xs @ [a]) (ys @ [b]) (zeros_like (xs @ [a])) =
           zip3 xs ys (zeros_like xs) @ [(a, b, 0)]"
  using assms by (simp add: zip3_def zeros_like_def)

lemma rectangle_coil_path_closed_form:
  "rectangle_coil_path n s wh l m =
     map (\<lambda>(x, y). (x, y, 0)) (spiral_corners l m s (nat n)) @
       [(wh, - (int (nat n) * s), 0)]"
proof -
  let ?c = "spiral_corners l m s (nat n)"
  have h: "hd (map fst ?c) = 0"
    using spiral_corners_hd [of l m s "nat n"] spiral_corners_ne [of l m s "nat n"]
    by (simp add: hd_map)
  have t: "last (map snd ?c) = - (int (nat n) * s)"
    using spiral_corners_last [of l m s "nat n"] spiral_corners_ne [of l m s "nat n"]
    by (simp add: last_map)
  have "rectangle_coil_path n s wh l m =
          zip3 (map fst ?c @ [0 + wh]) (map snd ?c @ [- (int (nat n) * s)])
            (zeros_like (map fst ?c @ [0 + wh]))"
    by (simp add: rectangle_coil_path_def rectangle_coil_xy_def rectangle_turns_closed_form h t)
  also have "\<dots> = zip3 (map fst ?c) (map snd ?c) (zeros_like (map fst ?c)) @
                     [(0 + wh, - (int (nat n) * s), 0)]"
    by (rule zip3_snoc) simp
  finally show ?thesis by (simp add: zip3_corners)
qed



























text \<open>On success the polyline sent to the backend as the coil path is the generated
  path.\<close>

lemma create_rectangle_coil_sends_path:
  assumes "CHR ''_'' \<notin> set name" and "maxwell_3d s \<noteq> None" and "name \<notin> set (coil_names s)"
    and "wire_width < step_size"
  shows "CreatePolyline (rectangle_coil_path num_turns step_size wire_height
             initial_x_length initial_y_length) (name @ ''_coil_path'')
          \<in> set (the (maxwell_3d (snd (create_rectangle_coil name material num_turns step_size
                 wire_height wire_width initial_x_length initial_y_length [] r s))))"
  using assms
  by (auto simp add: create_rectangle_coil_def rectangle_coil_path_def split: prod.splits)




lemma two_turn_coil_path:
  "rectangle_coil_path 2 2 1 3 3 =
     [(0, 0, 0), (3, 0, 0), (3, 3, 0), (-2, 3, 0), (-2, -2, 0),
      (5, -2, 0), (5, 5, 0), (-4, 5, 0), (-4, -4, 0), (1, -4, 0)]"
  by (simp add: rectangle_coil_path_closed_form eval_nat_numeral)


text \<open>The two conditions on the inner lengths are needed as well: with
  \<open>initial_y_length = 0\<close> the first and third segment lie on one line and overlap, and
  with a negative \<open>initial_x_length\<close> the second and fourth do. And the closing segment
  need not be short: in the path of two turns with step size 2 and inner lengths 3 it
  is as long as the first side of the second turn and longer than every side of the
  first.\<close>

lemma flat_coil_path:
  "rectangle_coil_path 1 1 1 1 0 =
     [(0, 0, 0), (1, 0, 0), (1, 0, 0), (-1, 0, 0), (-1, -1, 0), (1, -1, 0)]"
  by (simp add: rectangle_coil_path_closed_form)

lemma reversed_coil_path:
  "rectangle_coil_path 1 1 1 (-1) 1 =
     [(0, 0, 0), (-1, 0, 0), (-1, 1, 0), (-1, 1, 0), (-1, -1, 0), (1, -1, 0)]"
  by (simp add: rectangle_coil_path_closed_form)

lemma rectangle_coil_needs_positive_lengths:
  "segments_meet (segments (rectangle_coil_path 1 1 1 1 0) ! 0)
     (segments (rectangle_coil_path 1 1 1 1 0) ! 2)"
  "segments_meet (segments (rectangle_coil_path 1 1 1 (-1) 1) ! 1)
     (segments (rectangle_coil_path 1 1 1 (-1) 1) ! 3)"
  by (simp_all add: flat_coil_path reversed_coil_path segments_def segments_meet_def)

lemma closing_segment_not_short:
  "map segment_length (segments (rectangle_coil_path 2 2 1 3 3)) = [3, 3, 5, 5, 7, 7, 9, 9, 5]"
  by (simp add: two_turn_coil_path segments_def)

end
